theory Spec2Isabelle
  imports Main "HOL-Library.AList"
begin

section \<open>The signaling server of call0 (apps/server/src/mediasoup-server.ts)\<close>

text \<open>
  The server keeps three process-wide indices (\<open>rooms\<close>, \<open>peerSocketMap\<close>,
  \<open>peerRoomMap\<close>) and reacts to two events of a WebSocket: a text frame and the close
  of the connection. The embedding below follows the source function by function.

  \<^item> A mediasoup object (router, observer, transport, producer, consumer) is represented
    by its id, a natural number. The worker hands out ids from a counter (\<open>mw_next\<close>);
    every call the server makes to the worker is recorded as a \<open>Call\<close> effect. What
    the worker does inside a call is not modelled.
  \<^item> A call to the worker that the source awaits may reject: \<open>mw_rejects\<close> of the
    environment says which calls do, and with which message.
  \<^item> \<open>ws.readyState === WebSocket.OPEN\<close> is the environment's \<open>ws_open\<close>.
  \<^item> Every frame sent is a \<open>Send\<close> effect, in the order of the \<open>ws.send\<close> calls.
  \<^item> A handler runs from its first to its last statement without another handler
    running in between: the events of a trace are handled one after the other. Events
    raised by the worker (\<open>transportclose\<close>, \<open>producerclose\<close>, \<open>volumes\<close>) are not
    events of a trace.
  \<^item> A frame either is not parseable as JSON or parses to an object whose fields have
    the types the handlers declare for them: \<open>roomId\<close> and \<open>peerId\<close> are strings (the
    empty string is falsy), optional fields are options.
  \<^item> \<open>Map\<close>s and the objects used as dictionaries (\<open>rooms\<close>, \<open>room.peers\<close>) are
    association lists in insertion order; \<open>Object.values\<close> enumerates array-index keys
    first, in ascending order, then the other keys in insertion order.
  \<^item> An object used as a dictionary also answers for the property names it inherits
    from \<open>Object.prototype\<close>. \<open>createRoom\<close> looks up a key sent by the client and is
    modelled with them (\<open>inherited\<close>). The other lookups use keys taken from the
    registries, which are own properties in every state the server reaches, and are
    plain lookups. The assignment \<open>room.peers[peerId] = peer\<close> with peerId
    \<open>__proto__\<close> would replace the prototype of the dictionary instead of adding a key:
    such a \<open>joinRoom\<close> is outside the model, and the theorems about \<open>joinRoom\<close> and
    about traces exclude it (\<open>modelled\<close>).
\<close>

subsection \<open>Types (lines 15-63)\<close>

type_synonym ws = nat
type_synonym handle = nat
type_synonym payload = string

record MyProducer =
  prod_id :: handle
  source :: string
  kind :: string
  paused :: bool

record MyConsumer =
  cons_id :: handle
  cons_peerId :: string
  cons_producerId :: handle

datatype connectionState = New | Connecting | Connected | Disconnected

record MyPeer =
  peer_id :: string
  displayName :: string
  peer_ws :: ws
  connectionState :: connectionState
  sendTransport :: "handle option"
  recvTransport :: "handle option"
  producers :: "(handle \<times> MyProducer) list"
  consumers :: "(handle \<times> MyConsumer) list"

record MyRoom =
  room_id :: string
  router :: handle
  audioLevelObserver :: handle
  peers :: "(string \<times> MyPeer) list"

record state =
  rooms :: "(string \<times> MyRoom) list"
  peerSocketMap :: "(ws \<times> string) list"
  peerRoomMap :: "(string \<times> string) list"
  mw_next :: handle

definition init :: state where
  "init = \<lparr>rooms = [], peerSocketMap = [], peerRoomMap = [], mw_next = 0\<rparr>"

subsection \<open>The media worker and the wire\<close>

datatype mw_op =
    CreateRouter
  | CreateAudioLevelObserver handle
  | CreateWebRtcTransport handle string string
  | TransportConnect handle payload
  | TransportProduce handle string payload string string
  | TransportConsume handle handle payload
  | ObserverAddProducer handle handle
  | ProducerPause handle
  | ProducerResume handle
  | ProducerClose handle
  | ConsumerClose handle
  | TransportClose handle
  | ObserverClose handle
  | RouterClose handle

record env =
  mw_rejects :: "mw_op \<Rightarrow> string option"
  ws_open :: "ws \<Rightarrow> bool"

type_synonym reqid = "string option"

datatype frame =
    ErrorFrame reqid string
  | CreateRoomResponse reqid
  | JoinRoomResponse reqid handle "(string \<times> string \<times> connectionState) list"
      "(handle \<times> string \<times> string \<times> string \<times> string) list"
  | CreateWebRtcTransportResponse reqid handle
  | ConnectWebRtcTransportResponse reqid
  | ProduceResponse reqid handle
  | ConsumeResponse reqid handle handle string string string string
  | PauseProducerResponse reqid
  | ResumeProducerResponse reqid
  | Pong reqid
  | PeerJoined string string
  | PeerLeft string string
  | NewProducer handle string string string string
  | ProducerClosed string handle

datatype effect = Send ws frame | Call mw_op

record data =
  d_type :: string
  d_reqId :: reqid
  d_roomId :: string
  d_peerId :: string
  d_displayName :: "string option"
  d_direction :: "string option"
  d_transportId :: "handle option"
  d_dtlsParameters :: payload
  d_kind :: string
  d_source :: "string option"
  d_rtpParameters :: payload
  d_producerId :: handle
  d_rtpCapabilities :: payload

datatype message = NotJson | Json data

subsection \<open>JavaScript objects as dictionaries\<close>

definition is_digit :: "char \<Rightarrow> bool" where
  "is_digit c = (c \<in> set ''0123456789'')"

definition digit_value :: "char \<Rightarrow> nat" where
  "digit_value c = of_char c - 48"

definition array_index :: "string \<Rightarrow> nat option" where
  "array_index k =
     (if k \<noteq> [] \<and> list_all is_digit k \<and> (k = ''0'' \<or> hd k \<noteq> CHR ''0'')
      then (let n = foldl (\<lambda>a c. 10 * a + digit_value c) 0 k
            in if n < 4294967295 then Some n else None)
      else None)"

definition index_of :: "string \<times> 'a \<Rightarrow> nat" where
  "index_of p = (case array_index (fst p) of None \<Rightarrow> 0 | Some n \<Rightarrow> n)"

definition object_values :: "(string \<times> 'a) list \<Rightarrow> 'a list" where
  "object_values ps =
     map snd (sort_key index_of (filter (\<lambda>p. array_index (fst p) \<noteq> None) ps)
              @ filter (\<lambda>p. array_index (fst p) = None) ps)"

definition inherited :: "string \<Rightarrow> bool" where
  "inherited k = (k \<in> set [''constructor'', ''__proto__'', ''hasOwnProperty'',
     ''isPrototypeOf'', ''propertyIsEnumerable'', ''toLocaleString'', ''toString'',
     ''valueOf'', ''__defineGetter__'', ''__defineSetter__'', ''__lookupGetter__'',
     ''__lookupSetter__''])"

subsection \<open>Utility functions (lines 115-130)\<close>

definition getPeerFromSocket :: "state \<Rightarrow> ws \<Rightarrow> (string \<times> string \<times> MyPeer) option" where
  "getPeerFromSocket s w =
     (case map_of (peerSocketMap s) w of
        None \<Rightarrow> None
      | Some peerId \<Rightarrow>
          if peerId = [] then None
          else (case map_of (peerRoomMap s) peerId of
                  None \<Rightarrow> None
                | Some roomId \<Rightarrow>
                    if roomId = [] then None
                    else (case map_of (rooms s) roomId of
                            None \<Rightarrow> None
                          | Some room \<Rightarrow>
                              (case map_of (peers room) peerId of
                                 None \<Rightarrow> None
                               | Some peer \<Rightarrow> Some (roomId, peerId, peer)))))"

definition getRoom :: "state \<Rightarrow> string option \<Rightarrow> MyRoom option" where
  "getRoom s roomId =
     map_of (rooms s) (case roomId of None \<Rightarrow> ''undefined'' | Some r \<Rightarrow> r)"

definition set_peer :: "string \<Rightarrow> string \<Rightarrow> MyPeer \<Rightarrow> state \<Rightarrow> state" where
  "set_peer roomId peerId peer s =
     (case map_of (rooms s) roomId of
        None \<Rightarrow> s
      | Some room \<Rightarrow>
          s\<lparr>rooms := AList.update roomId
                (room\<lparr>peers := AList.update peerId peer (peers room)\<rparr>) (rooms s)\<rparr>)"

definition caught :: "ws \<Rightarrow> data \<Rightarrow> string \<Rightarrow> effect" where
  "caught w d m =
     Send w (ErrorFrame (d_reqId d) (if m = [] then ''Internal server error'' else m))"

definition others :: "env \<Rightarrow> MyRoom \<Rightarrow> string \<Rightarrow> MyPeer list" where
  "others e room peerId =
     filter (\<lambda>otherPeer. peer_id otherPeer \<noteq> peerId \<and> ws_open e (peer_ws otherPeer))
       (object_values (peers room))"

subsection \<open>createRoom, createPeer, cleanupPeer (lines 132-284)\<close>

datatype room_ref = Room MyRoom | Inherited

definition createRoom ::
  "env \<Rightarrow> string \<Rightarrow> state \<Rightarrow> (string + room_ref) \<times> state \<times> effect list" where
  "createRoom e roomId s =
     (case map_of (rooms s) roomId of
        Some room \<Rightarrow> (Inr (Room room), s, [])
      | None \<Rightarrow>
          if inherited roomId then (Inr Inherited, s, [])
          else (case mw_rejects e CreateRouter of
                  Some m \<Rightarrow> (Inl m, s, [Call CreateRouter])
                | None \<Rightarrow>
                    let r = mw_next s; s1 = s\<lparr>mw_next := Suc r\<rparr>;
                        calls = [Call CreateRouter, Call (CreateAudioLevelObserver r)]
                    in (case mw_rejects e (CreateAudioLevelObserver r) of
                          Some m \<Rightarrow> (Inl m, s1, calls)
                        | None \<Rightarrow>
                            let room = \<lparr>room_id = roomId, router = r,
                                        audioLevelObserver = Suc r, peers = []\<rparr>
                            in (Inr (Room room),
                                s1\<lparr>mw_next := Suc (Suc r),
                                   rooms := AList.update roomId room (rooms s)\<rparr>,
                                calls))))"

definition createPeer ::
  "env \<Rightarrow> string \<Rightarrow> string \<Rightarrow> string \<Rightarrow> ws \<Rightarrow> state
     \<Rightarrow> (string + MyPeer \<times> MyRoom) \<times> state \<times> effect list" where
  "createPeer e roomId peerId dn w s =
     (case createRoom e roomId s of
        (Inl m, s1, es) \<Rightarrow> (Inl m, s1, es)
      | (Inr Inherited, s1, es) \<Rightarrow>
          (Inl (''Cannot set properties of undefined (setting '' @ [CHR 0x27] @ peerId
                @ [CHR 0x27] @ '')''), s1, es)
      | (Inr (Room room), s1, es) \<Rightarrow>
          let peer = \<lparr>peer_id = peerId, displayName = dn, peer_ws = w,
                      connectionState = New, sendTransport = None, recvTransport = None,
                      producers = [], consumers = []\<rparr>;
              room' = room\<lparr>peers := AList.update peerId peer (peers room)\<rparr>
          in (Inr (peer, room'),
              s1\<lparr>rooms := AList.update roomId room' (rooms s1),
                 peerSocketMap := AList.update w peerId (peerSocketMap s1),
                 peerRoomMap := AList.update peerId roomId (peerRoomMap s1)\<rparr>,
              es))"

definition close_producers :: "env \<Rightarrow> MyRoom \<Rightarrow> string \<Rightarrow> MyPeer \<Rightarrow> effect list" where
  "close_producers e room peerId peer =
     concat (map (\<lambda>(_, myProducer).
        Call (ProducerClose (prod_id myProducer))
        # map (\<lambda>otherPeer. Send (peer_ws otherPeer)
                 (ProducerClosed peerId (prod_id myProducer)))
            (others e room peerId)) (producers peer))"

definition close_handles :: "MyPeer \<Rightarrow> effect list" where
  "close_handles peer =
     map (\<lambda>(_, myConsumer). Call (ConsumerClose (cons_id myConsumer))) (consumers peer)
     @ (case sendTransport peer of None \<Rightarrow> [] | Some t \<Rightarrow> [Call (TransportClose t)])
     @ (case recvTransport peer of None \<Rightarrow> [] | Some t \<Rightarrow> [Call (TransportClose t)])"

definition cleanupPeer :: "env \<Rightarrow> string \<Rightarrow> state \<Rightarrow> state \<times> effect list" where
  "cleanupPeer e peerId s =
     (case map_of (peerRoomMap s) peerId of
        None \<Rightarrow> (s, [])
      | Some roomId \<Rightarrow>
          if roomId = [] then (s, [])
          else (case map_of (rooms s) roomId of
                  None \<Rightarrow> (s, [])
                | Some room \<Rightarrow>
                    (case map_of (peers room) peerId of
                       None \<Rightarrow> (s, [])
                     | Some peer \<Rightarrow>
                         let remaining = AList.delete peerId (peers room);
                             left = map (\<lambda>otherPeer. Send (peer_ws otherPeer)
                                           (PeerLeft peerId (displayName peer)))
                                      (filter (\<lambda>otherPeer. ws_open e (peer_ws otherPeer))
                                         (object_values remaining));
                             s1 = s\<lparr>peerSocketMap :=
                                       AList.delete (peer_ws peer) (peerSocketMap s),
                                    peerRoomMap := AList.delete peerId (peerRoomMap s)\<rparr>;
                             es = close_producers e room peerId peer @ close_handles peer
                                  @ left
                         in if remaining = []
                            then (s1\<lparr>rooms := AList.delete roomId (rooms s)\<rparr>,
                                  es @ [Call (RouterClose (router room))])
                            else (s1\<lparr>rooms := AList.update roomId
                                       (room\<lparr>peers := remaining\<rparr>) (rooms s)\<rparr>,
                                  es))))"

subsection \<open>The close handler (lines 292-298)\<close>

definition on_close :: "env \<Rightarrow> ws \<Rightarrow> state \<Rightarrow> state \<times> effect list" where
  "on_close e w s =
     (case map_of (peerSocketMap s) w of
        None \<Rightarrow> (s, [])
      | Some peerId \<Rightarrow> if peerId = [] then (s, []) else cleanupPeer e peerId s)"

subsection \<open>The message handler (lines 300-823)\<close>

text \<open>
  Each case of the \<open>switch\<close> is a function of its own. A rejected worker call is caught
  by the handler's \<open>catch\<close>, which sends \<open>caught\<close>. A handler that changes a field of
  the peer object it got from \<open>getPeerFromSocket\<close> writes the object back where it was
  found (\<open>set_peer\<close>).
\<close>

definition handle_createRoom :: "env \<Rightarrow> ws \<Rightarrow> data \<Rightarrow> state \<Rightarrow> state \<times> effect list" where
  "handle_createRoom e w d s =
     (case createRoom e (d_roomId d) s of
        (Inl m, s1, es) \<Rightarrow> (s1, es @ [caught w d m])
      | (Inr _, s1, es) \<Rightarrow> (s1, es @ [Send w (CreateRoomResponse (d_reqId d))]))"

definition existingProducers ::
  "MyRoom \<Rightarrow> string \<Rightarrow> (handle \<times> string \<times> string \<times> string \<times> string) list" where
  "existingProducers room peerId =
     concat (map (\<lambda>otherPeer.
        map (\<lambda>(_, myProducer). (prod_id myProducer, peer_id otherPeer, kind myProducer,
                                source myProducer, displayName otherPeer))
            (producers otherPeer))
        (filter (\<lambda>otherPeer. peer_id otherPeer \<noteq> peerId) (object_values (peers room))))"

definition handle_joinRoom :: "env \<Rightarrow> ws \<Rightarrow> data \<Rightarrow> state \<Rightarrow> state \<times> effect list" where
  "handle_joinRoom e w d s =
     (let roomId = d_roomId d; peerId = d_peerId d;
          dn = (case d_displayName d of None \<Rightarrow> ''Anonymous'' | Some n \<Rightarrow> n)
      in case createRoom e roomId s of
           (Inl m, s1, es1) \<Rightarrow> (s1, es1 @ [caught w d m])
         | (Inr _, s1, es1) \<Rightarrow>
             (case createPeer e roomId peerId dn w s1 of
                (Inl m, s2, es2) \<Rightarrow> (s2, es1 @ es2 @ [caught w d m])
              | (Inr (peer, room), s2, es2) \<Rightarrow>
                  let room1 = room\<lparr>peers := AList.update peerId
                                 (peer\<lparr>connectionState := Connecting\<rparr>) (peers room)\<rparr>;
                      notes = map (\<lambda>otherPeer. Send (peer_ws otherPeer)
                                     (PeerJoined peerId dn)) (others e room1 peerId);
                      resp = Send w (JoinRoomResponse (d_reqId d) (router room1)
                               (map (\<lambda>p. (peer_id p, displayName p, connectionState p))
                                  (filter (\<lambda>p. peer_id p \<noteq> peerId)
                                     (object_values (peers room1))))
                               (existingProducers room1 peerId))
                  in (set_peer roomId peerId (peer\<lparr>connectionState := Connected\<rparr>) s2,
                      es1 @ es2 @ notes @ [resp])))"

definition handle_createWebRtcTransport ::
  "env \<Rightarrow> ws \<Rightarrow> data \<Rightarrow> state \<Rightarrow> state \<times> effect list" where
  "handle_createWebRtcTransport e w d s =
     (case getPeerFromSocket s w of
        None \<Rightarrow> (s, [Send w (ErrorFrame (d_reqId d) ''Peer not found'')])
      | Some (rk, pk, peer) \<Rightarrow>
          (case getRoom s (map_of (peerRoomMap s) (peer_id peer)) of
             None \<Rightarrow> (s, [Send w (ErrorFrame (d_reqId d) ''Room not found'')])
           | Some room \<Rightarrow>
               let op = CreateWebRtcTransport (router room) (peer_id peer)
                          (case d_direction d of
                             None \<Rightarrow> ''send''
                           | Some dir \<Rightarrow> if dir = [] then ''send'' else dir)
               in (case mw_rejects e op of
                     Some m \<Rightarrow> (s, [Call op, caught w d m])
                   | None \<Rightarrow>
                       let transport = mw_next s;
                           peer' = (if d_direction d = Some ''recv''
                                    then peer\<lparr>recvTransport := Some transport\<rparr>
                                    else peer\<lparr>sendTransport := Some transport\<rparr>)
                       in (set_peer rk pk peer' (s\<lparr>mw_next := Suc transport\<rparr>),
                           [Call op,
                            Send w (CreateWebRtcTransportResponse (d_reqId d) transport)]))))"

definition handle_connectWebRtcTransport ::
  "env \<Rightarrow> ws \<Rightarrow> data \<Rightarrow> state \<Rightarrow> state \<times> effect list" where
  "handle_connectWebRtcTransport e w d s =
     (case getPeerFromSocket s w of
        None \<Rightarrow> (s, [Send w (ErrorFrame (d_reqId d) ''Peer not found'')])
      | Some (rk, pk, peer) \<Rightarrow>
          (case (if d_direction d = Some ''recv'' then recvTransport peer
                 else sendTransport peer) of
             None \<Rightarrow> (s, [Send w (ErrorFrame (d_reqId d) ''Transport not found'')])
           | Some transport \<Rightarrow>
               let op = TransportConnect transport (d_dtlsParameters d)
               in (case mw_rejects e op of
                     Some m \<Rightarrow> (s, [Call op, caught w d m])
                   | None \<Rightarrow>
                       (s, [Call op,
                            Send w (ConnectWebRtcTransportResponse (d_reqId d))]))))"

definition detectedSource :: "data \<Rightarrow> string" where
  "detectedSource d =
     (let dflt = (if d_kind d = ''audio'' then ''mic'' else ''webcam'')
      in case d_source d of None \<Rightarrow> dflt | Some src \<Rightarrow> if src = [] then dflt else src)"

definition handle_produce :: "env \<Rightarrow> ws \<Rightarrow> data \<Rightarrow> state \<Rightarrow> state \<times> effect list" where
  "handle_produce e w d s =
     (case getPeerFromSocket s w of
        None \<Rightarrow> (s, [Send w (ErrorFrame (d_reqId d) ''Peer or transport not found'')])
      | Some (rk, pk, peer) \<Rightarrow>
          (case sendTransport peer of
             None \<Rightarrow> (s, [Send w (ErrorFrame (d_reqId d) ''Peer or transport not found'')])
           | Some transport \<Rightarrow>
               (case getRoom s (map_of (peerRoomMap s) (peer_id peer)) of
                  None \<Rightarrow> (s, [Send w (ErrorFrame (d_reqId d) ''Room not found'')])
                | Some room \<Rightarrow>
                    let op = TransportProduce transport (d_kind d) (d_rtpParameters d)
                               (peer_id peer) (detectedSource d)
                    in (case mw_rejects e op of
                          Some m \<Rightarrow> (s, [Call op, caught w d m])
                        | None \<Rightarrow>
                            let producer = mw_next s;
                                myProducer = \<lparr>prod_id = producer,
                                   source = detectedSource d, kind = d_kind d,
                                   paused = False\<rparr>;
                                peer' = peer\<lparr>producers :=
                                   AList.update producer myProducer (producers peer)\<rparr>
                            in (set_peer rk pk peer' (s\<lparr>mw_next := Suc producer\<rparr>),
                                [Call op]
                                @ (if d_kind d = ''audio''
                                   then [Call (ObserverAddProducer
                                                 (audioLevelObserver room) producer)]
                                   else [])
                                @ [Send w (ProduceResponse (d_reqId d) producer)]
                                @ map (\<lambda>otherPeer. Send (peer_ws otherPeer)
                                         (NewProducer producer (peer_id peer) (d_kind d)
                                            (detectedSource d) (displayName peer)))
                                    (others e room (peer_id peer)))))))"

definition find_producer :: "MyRoom \<Rightarrow> handle \<Rightarrow> (MyPeer \<times> MyProducer) option" where
  "find_producer room producerId =
     foldl (\<lambda>found p. case map_of (producers p) producerId of
                         None \<Rightarrow> found
                       | Some producer \<Rightarrow> Some (p, producer))
       None (object_values (peers room))"

definition handle_consume :: "env \<Rightarrow> ws \<Rightarrow> data \<Rightarrow> state \<Rightarrow> state \<times> effect list" where
  "handle_consume e w d s =
     (case getPeerFromSocket s w of
        None \<Rightarrow> (s, [Send w (ErrorFrame (d_reqId d) ''Peer or transport not found'')])
      | Some (rk, pk, peer) \<Rightarrow>
          (case recvTransport peer of
             None \<Rightarrow> (s, [Send w (ErrorFrame (d_reqId d) ''Peer or transport not found'')])
           | Some transport \<Rightarrow>
               (case getRoom s (map_of (peerRoomMap s) (peer_id peer)) of
                  None \<Rightarrow> (s, [Send w (ErrorFrame (d_reqId d) ''Room not found'')])
                | Some room \<Rightarrow>
                    (case find_producer room (d_producerId d) of
                       None \<Rightarrow> (s, [Send w (ErrorFrame (d_reqId d) ''Producer not found'')])
                     | Some (targetPeer, myProducer) \<Rightarrow>
                         let op = TransportConsume transport (prod_id myProducer)
                                    (d_rtpCapabilities d)
                         in (case mw_rejects e op of
                               Some m \<Rightarrow>
                                 (s, [Call op,
                                      Send w (ErrorFrame (d_reqId d)
                                                (''Failed to create consumer: '' @ m))])
                             | None \<Rightarrow>
                                 let consumer = mw_next s;
                                     myConsumer = \<lparr>cons_id = consumer,
                                        cons_peerId = peer_id targetPeer,
                                        cons_producerId = prod_id myProducer\<rparr>;
                                     peer' = peer\<lparr>consumers :=
                                        AList.update (prod_id myProducer) myConsumer
                                          (consumers peer)\<rparr>
                                 in (set_peer rk pk peer' (s\<lparr>mw_next := Suc consumer\<rparr>),
                                     [Call op,
                                      Send w (ConsumeResponse (d_reqId d) consumer
                                        (prod_id myProducer) (kind myProducer)
                                        (peer_id targetPeer) (displayName targetPeer)
                                        (source myProducer))]))))))"

definition handle_pauseProducer ::
  "env \<Rightarrow> ws \<Rightarrow> data \<Rightarrow> state \<Rightarrow> state \<times> effect list" where
  "handle_pauseProducer e w d s =
     (case getPeerFromSocket s w of
        None \<Rightarrow> (s, [Send w (ErrorFrame (d_reqId d) ''Peer not found'')])
      | Some (rk, pk, peer) \<Rightarrow>
          (case map_of (producers peer) (d_producerId d) of
             None \<Rightarrow> (s, [Send w (ErrorFrame (d_reqId d) ''Producer not found'')])
           | Some myProducer \<Rightarrow>
               let op = ProducerPause (prod_id myProducer)
               in (case mw_rejects e op of
                     Some m \<Rightarrow> (s, [Call op, caught w d m])
                   | None \<Rightarrow>
                       (set_peer rk pk
                          (peer\<lparr>producers := AList.update (d_producerId d)
                                   (myProducer\<lparr>paused := True\<rparr>) (producers peer)\<rparr>) s,
                        [Call op, Send w (PauseProducerResponse (d_reqId d))]))))"

definition handle_resumeProducer ::
  "env \<Rightarrow> ws \<Rightarrow> data \<Rightarrow> state \<Rightarrow> state \<times> effect list" where
  "handle_resumeProducer e w d s =
     (case getPeerFromSocket s w of
        None \<Rightarrow> (s, [Send w (ErrorFrame (d_reqId d) ''Peer not found'')])
      | Some (rk, pk, peer) \<Rightarrow>
          (case map_of (producers peer) (d_producerId d) of
             None \<Rightarrow> (s, [Send w (ErrorFrame (d_reqId d) ''Producer not found'')])
           | Some myProducer \<Rightarrow>
               let op = ProducerResume (prod_id myProducer)
               in (case mw_rejects e op of
                     Some m \<Rightarrow> (s, [Call op, caught w d m])
                   | None \<Rightarrow>
                       (set_peer rk pk
                          (peer\<lparr>producers := AList.update (d_producerId d)
                                   (myProducer\<lparr>paused := False\<rparr>) (producers peer)\<rparr>) s,
                        [Call op, Send w (ResumeProducerResponse (d_reqId d))]))))"

definition dispatch :: "env \<Rightarrow> ws \<Rightarrow> data \<Rightarrow> state \<Rightarrow> state \<times> effect list" where
  "dispatch e w d s =
     (if d_type d = ''createRoom'' then handle_createRoom e w d s
      else if d_type d = ''joinRoom'' then handle_joinRoom e w d s
      else if d_type d = ''createWebRtcTransport'' then handle_createWebRtcTransport e w d s
      else if d_type d = ''connectWebRtcTransport''
        then handle_connectWebRtcTransport e w d s
      else if d_type d = ''produce'' then handle_produce e w d s
      else if d_type d = ''consume'' then handle_consume e w d s
      else if d_type d = ''pauseProducer'' then handle_pauseProducer e w d s
      else if d_type d = ''resumeProducer'' then handle_resumeProducer e w d s
      else (s, [Send w (Pong (d_reqId d))]))"

definition on_message :: "env \<Rightarrow> ws \<Rightarrow> message \<Rightarrow> state \<Rightarrow> state \<times> effect list" where
  "on_message e w m s =
     (case m of
        NotJson \<Rightarrow> (s, [Send w (ErrorFrame None ''Invalid JSON'')])
      | Json d \<Rightarrow> dispatch e w d s)"

subsection \<open>Traces of events\<close>

datatype event = Message ws message env | Close ws env

fun step :: "state \<Rightarrow> event \<Rightarrow> state \<times> effect list" where
  "step s (Message w m e) = on_message e w m s"
| "step s (Close w e) = on_close e w s"

definition run :: "state \<Rightarrow> event list \<Rightarrow> state" where
  "run s evs = foldl (\<lambda>s ev. fst (step s ev)) s evs"

subsection \<open>Orderings of effects\<close>

text \<open>
  \<open>all_before P Q es\<close>: in \<open>es\<close>, no element with \<open>P\<close> comes after an element with \<open>Q\<close>,
  that is, everything with \<open>P\<close> is emitted before everything with \<open>Q\<close>.
\<close>

fun all_before :: "('a \<Rightarrow> bool) \<Rightarrow> ('a \<Rightarrow> bool) \<Rightarrow> 'a list \<Rightarrow> bool" where
  "all_before P Q [] = True"
| "all_before P Q (x # xs) = ((if Q x then \<not> list_ex P xs else True) \<and> all_before P Q xs)"

definition sends :: "(frame \<Rightarrow> bool) \<Rightarrow> effect \<Rightarrow> bool" where
  "sends P ef = (case ef of Send _ f \<Rightarrow> P f | Call _ \<Rightarrow> False)"

definition isProduceResponse :: "frame \<Rightarrow> bool" where
  "isProduceResponse f = (case f of ProduceResponse _ _ \<Rightarrow> True | _ \<Rightarrow> False)"

definition isNewProducer :: "frame \<Rightarrow> bool" where
  "isNewProducer f = (case f of NewProducer _ _ _ _ _ \<Rightarrow> True | _ \<Rightarrow> False)"

definition isJoinRoomResponse :: "frame \<Rightarrow> bool" where
  "isJoinRoomResponse f = (case f of JoinRoomResponse _ _ _ _ \<Rightarrow> True | _ \<Rightarrow> False)"

definition isPeerJoined :: "frame \<Rightarrow> bool" where
  "isPeerJoined f = (case f of PeerJoined _ _ \<Rightarrow> True | _ \<Rightarrow> False)"

definition isErrorFrame :: "frame \<Rightarrow> bool" where
  "isErrorFrame f = (case f of ErrorFrame _ _ \<Rightarrow> True | _ \<Rightarrow> False)"

subsection \<open>The state changes a step can make\<close>

text \<open>
  Every handler leaves the state as it is, lets the worker's id counter advance, edits one
  peer record in place (\<open>peer_edit\<close>: id and socket of the record stay), registers an empty
  room (\<open>add_room\<close>), stores a new peer record and binds socket and peerId (\<open>add_peer\<close>),
  or removes a peer and, when no peer is left, its room (\<open>remove_peer\<close>). These functions
  only name the results of the handlers above; the lemmas \<open>step_cases\<close> and its
  predecessors derive them from the handlers.
\<close>

definition join_name :: "data \<Rightarrow> string" where
  "join_name d = (case d_displayName d of None \<Rightarrow> ''Anonymous'' | Some n \<Rightarrow> n)"

definition fresh_peer :: "string \<Rightarrow> string \<Rightarrow> ws \<Rightarrow> MyPeer" where
  "fresh_peer peerId dn w =
     \<lparr>peer_id = peerId, displayName = dn, peer_ws = w, connectionState = Connected,
      sendTransport = None, recvTransport = None, producers = [], consumers = []\<rparr>"

definition new_room :: "string \<Rightarrow> state \<Rightarrow> MyRoom" where
  "new_room r s = \<lparr>room_id = r, router = mw_next s, audioLevelObserver = Suc (mw_next s),
                   peers = []\<rparr>"

definition add_room :: "string \<Rightarrow> state \<Rightarrow> state" where
  "add_room r s = s\<lparr>mw_next := Suc (Suc (mw_next s)),
                    rooms := AList.update r (new_room r s) (rooms s)\<rparr>"

definition add_peer :: "string \<Rightarrow> string \<Rightarrow> string \<Rightarrow> ws \<Rightarrow> MyRoom \<Rightarrow> state \<Rightarrow> state" where
  "add_peer r p dn w room s =
     s\<lparr>rooms := AList.update r
          (room\<lparr>peers := AList.update p (fresh_peer p dn w) (peers room)\<rparr>) (rooms s),
       peerSocketMap := AList.update w p (peerSocketMap s),
       peerRoomMap := AList.update p r (peerRoomMap s)\<rparr>"

definition remove_peer :: "string \<Rightarrow> string \<Rightarrow> MyRoom \<Rightarrow> MyPeer \<Rightarrow> state \<Rightarrow> state" where
  "remove_peer p r room peer s =
     s\<lparr>peerSocketMap := AList.delete (peer_ws peer) (peerSocketMap s),
       peerRoomMap := AList.delete p (peerRoomMap s),
       rooms := (if AList.delete p (peers room) = [] then AList.delete r (rooms s)
                 else AList.update r (room\<lparr>peers := AList.delete p (peers room)\<rparr>)
                        (rooms s))\<rparr>"

definition peer_edit :: "state \<Rightarrow> state \<Rightarrow> bool" where
  "peer_edit s s' =
     (s' = s \<or> (\<exists>rk pk room peer peer' n.
        map_of (rooms s) rk = Some room \<and> map_of (peers room) pk = Some peer
        \<and> peer_id peer' = peer_id peer \<and> peer_ws peer' = peer_ws peer
        \<and> mw_next s \<le> n
        \<and> s' = s\<lparr>mw_next := n, rooms := AList.update rk
              (room\<lparr>peers := AList.update pk peer' (peers room)\<rparr>) (rooms s)\<rparr>))"

subsection \<open>Conditions on traces and states\<close>

text \<open>
  \<open>modelled\<close>: the event is not a \<open>joinRoom\<close> with peerId \<open>__proto__\<close> (see above).
  \<open>is_createRoom\<close>: the event is a \<open>createRoom\<close> request.
  \<open>populated\<close>: every room of the registry has at least one peer.
  \<open>registered\<close>: every room's router id has been handed out by the worker, and no room
  is registered under a property name of \<open>Object.prototype\<close>.
  \<open>linked\<close>: a peerId bound by \<open>peerRoomMap\<close> is a key of the peers of the room it is
  bound to, and every peer record is stored under its own id.
  \<open>coherent\<close>: the mapping coherence of the specification (section 8, invariant 1).
  \<open>fresh_join\<close>: a \<open>joinRoom\<close> names a peerId that no room holds at that moment and comes
  from a socket that \<open>peerSocketMap\<close> does not bind; \<open>admissible\<close>: every \<open>joinRoom\<close> of the
  trace is fresh in the state it is handled in.
  \<open>well_keyed\<close>: the form of \<open>coherent\<close> that the proofs carry along, with the keys of the
  dictionaries distinct and equal to the ids of the records stored under them.
\<close>

definition modelled :: "event \<Rightarrow> bool" where
  "modelled ev =
     (case ev of
        Message w (Json d) e \<Rightarrow> (if d_type d = ''joinRoom'' then d_peerId d \<noteq> ''__proto__'' else True)
      | _ \<Rightarrow> True)"

definition is_createRoom :: "event \<Rightarrow> bool" where
  "is_createRoom ev = (case ev of Message w (Json d) e \<Rightarrow> d_type d = ''createRoom'' | _ \<Rightarrow> False)"


definition registered :: "state \<Rightarrow> bool" where
  "registered s = (\<forall>(r, room) \<in> set (rooms s). router room < mw_next s \<and> \<not> inherited r)"

definition linked :: "state \<Rightarrow> bool" where
  "linked s =
     ((\<forall>p r. map_of (peerRoomMap s) p = Some r \<longrightarrow>
          (\<exists>room peer. map_of (rooms s) r = Some room \<and> map_of (peers room) p = Some peer))
      \<and> (\<forall>r room k P. map_of (rooms s) r = Some room \<longrightarrow> map_of (peers room) k = Some P \<longrightarrow>
            peer_id P = k))"





subsection \<open>Example inputs\<close>

text \<open>
  A worker that accepts every call while every socket is open, a request with the fields
  of the scenarios of the specification, and traces: S1 (two peers join room R), S2 (the
  first peer then creates a send transport and produces audio, which leaves \<open>s2_peer\<close>
  as its record), S4 (its connection then closes), and one peer alone in R with a receive transport 2, a send transport 3 and an
  audio producer 4 (\<open>trace_solo\<close>, whose state holds \<open>solo_room\<close> with \<open>solo_peer\<close>).
\<close>

definition accepting :: env where
  "accepting = \<lparr>mw_rejects = (\<lambda>_. None), ws_open = (\<lambda>_. True)\<rparr>"

definition request :: "string \<Rightarrow> data" where
  "request t = \<lparr>d_type = t, d_reqId = Some ''1'', d_roomId = ''R'', d_peerId = ''p1'',
     d_displayName = Some ''A'', d_direction = None, d_transportId = None,
     d_dtlsParameters = [], d_kind = ''audio'', d_source = None, d_rtpParameters = [],
     d_producerId = 0, d_rtpCapabilities = []\<rparr>"

definition joinReq :: "string \<Rightarrow> string \<Rightarrow> data" where
  "joinReq roomId peerId = (request ''joinRoom'')\<lparr>d_roomId := roomId, d_peerId := peerId\<rparr>"

definition msg :: "ws \<Rightarrow> data \<Rightarrow> event" where
  "msg w d = Message w (Json d) accepting"

definition trace_S1 :: "event list" where
  "trace_S1 = [msg 1 (joinReq ''R'' ''p1''), msg 2 (joinReq ''R'' ''p2'')]"

definition trace_S2 :: "event list" where
  "trace_S2 = trace_S1 @ [msg 1 (request ''createWebRtcTransport''),
                          msg 1 (request ''produce'')]"


definition s2_peer :: MyPeer where
  "s2_peer = \<lparr>peer_id = ''p1'', displayName = ''A'', peer_ws = 1,
               connectionState = Connected, sendTransport = Some 2, recvTransport = None,
               producers = [(3, \<lparr>prod_id = 3, source = ''mic'', kind = ''audio'',
                                 paused = False\<rparr>)],
               consumers = []\<rparr>"

definition trace_solo :: "event list" where
  "trace_solo = [msg 1 (joinReq ''R'' ''p1''),
                 msg 1 ((request ''createWebRtcTransport'')\<lparr>d_direction := Some ''recv''\<rparr>),
                 msg 1 (request ''createWebRtcTransport''),
                 msg 1 (request ''produce'')]"

definition solo_peer :: MyPeer where
  "solo_peer = \<lparr>peer_id = ''p1'', displayName = ''A'', peer_ws = 1,
                 connectionState = Connected, sendTransport = Some 3, recvTransport = Some 2,
                 producers = [(4, \<lparr>prod_id = 4, source = ''mic'', kind = ''audio'',
                                   paused = False\<rparr>)],
                 consumers = []\<rparr>"

definition solo_room :: MyRoom where
  "solo_room = \<lparr>room_id = ''R'', router = 0, audioLevelObserver = 1,
                 peers = [(''p1'', solo_peer)]\<rparr>"


section \<open>Verified properties\<close>

subsection \<open>Invalid JSON\<close>

text \<open>
  C9. A frame that is not parseable as JSON is answered with exactly one frame
  \<open>{error: "Invalid JSON"}\<close> on the same connection; no room, peer or registry changes
  (the server has no call that closes a connection), so the next event is handled as if
  the frame had not arrived.
\<close>

theorem invalid_json_nonfatal:
  "step s (Message w NotJson e) = (s, [Send w (ErrorFrame None ''Invalid JSON'')])
   \<and> step (fst (step s (Message w NotJson e))) ev = step s ev"
  by (simp add: on_message_def)

theorem invalid_json_nonfatal_witness:
  "step (run init trace_S1) (Message 2 NotJson accepting)
     = (run init trace_S1, [Send 2 (ErrorFrame None ''Invalid JSON'')])
   \<and> step (fst (step (run init trace_S1) (Message 2 NotJson accepting)))
        (msg 2 (request ''ping''))
     = step (run init trace_S1) (msg 2 (request ''ping''))"
  using invalid_json_nonfatal [of "run init trace_S1" 2 accepting "msg 2 (request ''ping'')"]
  by simp

subsection \<open>setProducerMuted\<close>

text \<open>
  C7, as the code has it. The \<open>switch\<close> has no case for \<open>setProducerMuted\<close>: the request
  falls to the default branch, which answers \<open>{reqId, type: "pong"}\<close> to the caller, changes
  nothing and sends nothing to any other peer.
\<close>

theorem setProducerMuted_unhandled:
  "d_type d = ''setProducerMuted'' \<Longrightarrow>
     step s (Message w (Json d) e) = (s, [Send w (Pong (d_reqId d))])"
  by (simp add: on_message_def dispatch_def)

theorem setProducerMuted_unhandled_witness:
  "d_type (request ''setProducerMuted'') = ''setProducerMuted''
   \<and> step init (msg 1 (request ''setProducerMuted'')) = (init, [Send 1 (Pong (Some ''1''))])"
proof -
  have h: "d_type (request ''setProducerMuted'') = ''setProducerMuted''"
    by (simp add: request_def)
  show ?thesis
    using h setProducerMuted_unhandled [OF h, of init 1 accepting]
    by (simp add: msg_def request_def)
qed

text \<open>
  C7 as stated fails: after S2 peer p1 owns producer 3 and p2 is in the room with an open
  socket, yet the request changes nothing and yields one pong to the caller and no frame
  for p2.
\<close>

theorem setProducerMuted_counterexample:
  "run init trace_S2
     = \<lparr>rooms = [(''R'', \<lparr>room_id = ''R'', router = 0, audioLevelObserver = 1,
                         peers = [(''p1'', s2_peer), (''p2'', fresh_peer ''p2'' ''A'' 2)]\<rparr>)],
        peerSocketMap = [(1, ''p1''), (2, ''p2'')],
        peerRoomMap = [(''p1'', ''R''), (''p2'', ''R'')], mw_next = 4\<rparr>
   \<and> step (run init trace_S2) (msg 1 ((request ''setProducerMuted'')\<lparr>d_producerId := 3\<rparr>))
       = (run init trace_S2, [Send 1 (Pong (Some ''1''))])"
  by code_simp

subsection \<open>cleanupPeer twice\<close>

lemma cleanup_early: "map_of (peerRoomMap s) p = None \<Longrightarrow> cleanupPeer e p s = (s, [])"
  by (simp add: cleanupPeer_def)

lemma cleanup_cases:
  "(cleanupPeer e p s = (s, []) \<and> cleanupPeer e' p s = (s, []))
   \<or> map_of (peerRoomMap (fst (cleanupPeer e p s))) p = None"
  by (simp add: cleanupPeer_def Let_def AList.delete_conv' split: option.splits)

text \<open>
  C8. A second \<open>cleanupPeer\<close> for the same peerId, whatever the sockets' states then,
  returns the state of the first unchanged and has no effect: no close of a producer,
  consumer, transport or router, and no notification.
\<close>

theorem cleanupPeer_idempotent:
  "cleanupPeer e' peerId (fst (cleanupPeer e peerId s)) = (fst (cleanupPeer e peerId s), [])"
  using cleanup_cases [of e peerId s e']
    cleanup_early [of "fst (cleanupPeer e peerId s)" peerId e']
  by auto

theorem cleanupPeer_idempotent_witness:
  "snd (cleanupPeer accepting ''p1'' (run init trace_S2))
     = [Call (ProducerClose 3), Send 2 (ProducerClosed ''p1'' 3), Call (TransportClose 2),
        Send 2 (PeerLeft ''p1'' ''A'')]
   \<and> cleanupPeer accepting ''p1'' (fst (cleanupPeer accepting ''p1'' (run init trace_S2)))
     = (fst (cleanupPeer accepting ''p1'' (run init trace_S2)), [])"
proof -
  have "snd (cleanupPeer accepting ''p1'' (run init trace_S2))
     = [Call (ProducerClose 3), Send 2 (ProducerClosed ''p1'' 3), Call (TransportClose 2),
        Send 2 (PeerLeft ''p1'' ''A'')]"
    by code_simp
  then show ?thesis
    using cleanupPeer_idempotent [of accepting "''p1''" accepting "run init trace_S2"]
    by simp
qed

subsection \<open>Order of response and broadcast\<close>

lemma all_before_no_first: "\<forall>x\<in>set xs. \<not> P x \<Longrightarrow> all_before P Q xs"
  by (induction xs) (auto simp: list_ex_iff)

lemma all_before_append:
  "\<forall>x\<in>set xs. \<not> Q x \<Longrightarrow> all_before P Q (xs @ ys) = all_before P Q ys"
  by (induction xs) auto

lemma all_before_map: "(\<And>x. \<not> P (f x)) \<Longrightarrow> all_before P Q (map f xs)"
  by (rule all_before_no_first) simp

lemma createRoom_calls:
  "createRoom e r s = (x, s1, es) \<Longrightarrow> \<forall>ef\<in>set es. \<exists>op. ef = Call op"
  by (auto simp: createRoom_def Let_def split: option.splits if_splits)

lemma createPeer_calls:
  "createPeer e r p dn w s = (x, s1, es) \<Longrightarrow> \<forall>ef\<in>set es. \<exists>op. ef = Call op"
  by (auto simp: createPeer_def Let_def split: prod.splits sum.splits room_ref.splits
      dest!: createRoom_calls)

lemma calls_not_sends:
  "\<forall>ef\<in>set es. \<exists>op. ef = Call op \<Longrightarrow> x \<in> set es \<Longrightarrow> \<not> sends P x"
  by (auto simp: sends_def)

lemma produce_order:
  "all_before (sends isProduceResponse) (sends isNewProducer) (snd (handle_produce e w d s))"
  unfolding handle_produce_def Let_def
  by (auto split: option.splits prod.splits intro!: all_before_map
      simp: sends_def isNewProducer_def isProduceResponse_def caught_def list_ex_iff)

lemma join_order:
  "all_before (sends isPeerJoined) (sends isJoinRoomResponse) (snd (handle_joinRoom e w d s))"
proof (cases "createRoom e (d_roomId d) s")
  case (fields x s1 es1)
  note cr = this
  have n1: "\<forall>x\<in>set es1. \<not> sends isJoinRoomResponse x"
    using createRoom_calls [OF cr] calls_not_sends by blast
  show ?thesis
  proof (cases x)
    case (Inl m)
    then show ?thesis using cr n1
      by (simp add: handle_joinRoom_def Let_def all_before_append caught_def sends_def
          isJoinRoomResponse_def)
  next
    case (Inr rr)
    obtain y s2 es2 where cp: "createPeer e (d_roomId d) (d_peerId d)
        (case d_displayName d of None \<Rightarrow> ''Anonymous'' | Some n \<Rightarrow> n) w s1 = (y, s2, es2)"
      by (cases "createPeer e (d_roomId d) (d_peerId d)
        (case d_displayName d of None \<Rightarrow> ''Anonymous'' | Some n \<Rightarrow> n) w s1") auto
    have n2: "\<forall>x\<in>set es2. \<not> sends isJoinRoomResponse x"
      using createPeer_calls [OF cp] calls_not_sends by blast
    show ?thesis
    proof (cases y)
      case (Inl m)
      then show ?thesis using cr Inr cp n1 n2
        by (simp add: handle_joinRoom_def Let_def all_before_append caught_def sends_def
            isJoinRoomResponse_def)
    next
      case (Inr pr)
      then show ?thesis using cr \<open>x = Inr rr\<close> cp n1 n2
        by (cases pr) (simp add: handle_joinRoom_def Let_def all_before_append sends_def
            isJoinRoomResponse_def isPeerJoined_def)
    qed
  qed
qed

text \<open>
  C6, as the code has it. Handling a \<open>produce\<close> request, the server sends the
  \<open>produceResponse\<close> before every \<open>newProducer\<close> notification; handling a \<open>joinRoom\<close>
  request it sends every \<open>peerJoined\<close> notification before the \<open>joinRoomResponse\<close>.
\<close>

theorem broadcast_order:
  "(d_type d = ''produce'' \<longrightarrow>
      all_before (sends isProduceResponse) (sends isNewProducer)
        (snd (step s (Message w (Json d) e))))
   \<and> (d_type d = ''joinRoom'' \<longrightarrow>
      all_before (sends isPeerJoined) (sends isJoinRoomResponse)
        (snd (step s (Message w (Json d) e))))"
  by (simp add: on_message_def dispatch_def produce_order join_order)

theorem broadcast_order_witness:
  "snd (step (run init (butlast trace_S2)) (msg 1 (request ''produce'')))
     = [Call (TransportProduce 2 ''audio'' [] ''p1'' ''mic''), Call (ObserverAddProducer 1 3),
        Send 1 (ProduceResponse (Some ''1'') 3),
        Send 2 (NewProducer 3 ''p1'' ''audio'' ''mic'' ''A'')]
   \<and> all_before (sends isProduceResponse) (sends isNewProducer)
        (snd (step (run init (butlast trace_S2)) (msg 1 (request ''produce''))))
   \<and> all_before (sends isPeerJoined) (sends isJoinRoomResponse)
        (snd (step (run init [msg 1 (joinReq ''R'' ''p1'')]) (msg 2 (joinReq ''R'' ''p2''))))"
proof -
  have t: "d_type (request ''produce'') = ''produce''"
    "d_type (joinReq ''R'' ''p2'') = ''joinRoom''"
    by (simp_all add: request_def joinReq_def)
  have "snd (step (run init (butlast trace_S2)) (msg 1 (request ''produce'')))
     = [Call (TransportProduce 2 ''audio'' [] ''p1'' ''mic''), Call (ObserverAddProducer 1 3),
        Send 1 (ProduceResponse (Some ''1'') 3),
        Send 2 (NewProducer 3 ''p1'' ''audio'' ''mic'' ''A'')]"
    by code_simp
  then show ?thesis
    using t
      broadcast_order [of "request ''produce''" "run init (butlast trace_S2)" 1 accepting]
      broadcast_order [of "joinReq ''R'' ''p2''" "run init [msg 1 (joinReq ''R'' ''p1'')]"
        2 accepting]
    by (simp add: msg_def)
qed

text \<open>
  C6 as stated fails for \<open>joinRoom\<close>: when p2 joins the room of p1, the \<open>peerJoined\<close> for
  p1 is sent first and the \<open>joinRoomResponse\<close> for p2 after it.
\<close>

theorem broadcast_order_counterexample:
  "snd (step (run init [msg 1 (joinReq ''R'' ''p1'')]) (msg 2 (joinReq ''R'' ''p2'')))
     = [Send 1 (PeerJoined ''p2'' ''A''),
        Send 2 (JoinRoomResponse (Some ''1'') 0 [(''p1'', ''A'', Connected)] [])]
   \<and> \<not> all_before (sends isJoinRoomResponse) (sends isPeerJoined)
        (snd (step (run init [msg 1 (joinReq ''R'' ''p1'')]) (msg 2 (joinReq ''R'' ''p2''))))"
  by code_simp

subsection \<open>What a step does to the state\<close>

lemma getPeer_found:
  "getPeerFromSocket s w = Some (rk, pk, peer) \<Longrightarrow>
     \<exists>room. map_of (rooms s) rk = Some room \<and> map_of (peers room) pk = Some peer
       \<and> map_of (peerSocketMap s) w = Some pk \<and> map_of (peerRoomMap s) pk = Some rk"
  by (auto simp: getPeerFromSocket_def split: option.splits if_splits)

lemma getPeer_set_peer:
  "getPeerFromSocket s w = Some (rk, pk, peer) \<Longrightarrow>
   getPeerFromSocket (set_peer rk pk peer' (s\<lparr>mw_next := n\<rparr>)) w = Some (rk, pk, peer')"
  by (auto simp: getPeerFromSocket_def set_peer_def AList.update_conv'
      split: option.splits if_splits)

lemma set_peer_edit:
  assumes "getPeerFromSocket s w = Some (rk, pk, peer)"
    and "peer_id peer' = peer_id peer" and "peer_ws peer' = peer_ws peer"
    and "mw_next s \<le> n"
  shows "peer_edit s (set_peer rk pk peer' (s\<lparr>mw_next := n\<rparr>))"
proof -
  from getPeer_found[OF assms(1)] obtain room where
    r: "map_of (rooms s) rk = Some room" "map_of (peers room) pk = Some peer" by blast
  show ?thesis
    unfolding peer_edit_def
    apply (rule disjI2)
    apply (rule exI[of _ rk], rule exI[of _ pk], rule exI[of _ room], rule exI[of _ peer],
        rule exI[of _ peer'], rule exI[of _ n])
    using r assms by (simp add: set_peer_def)
qed

lemma set_peer_edit0:
  assumes "getPeerFromSocket s w = Some (rk, pk, peer)"
    and "peer_id peer' = peer_id peer" and "peer_ws peer' = peer_ws peer"
  shows "peer_edit s (set_peer rk pk peer' s)"
  using set_peer_edit[OF assms, of "mw_next s"] by simp

lemma edit_createWebRtcTransport: "peer_edit s (fst (handle_createWebRtcTransport e w d s))"
  unfolding handle_createWebRtcTransport_def Let_def
  by (auto split: option.splits prod.splits intro!: set_peer_edit simp: peer_edit_def[of s s])

lemma edit_connectWebRtcTransport: "peer_edit s (fst (handle_connectWebRtcTransport e w d s))"
  unfolding handle_connectWebRtcTransport_def Let_def
  by (auto split: option.splits prod.splits simp: peer_edit_def[of s s])

lemma edit_produce: "peer_edit s (fst (handle_produce e w d s))"
  unfolding handle_produce_def Let_def
  by (auto split: option.splits prod.splits intro!: set_peer_edit simp: peer_edit_def[of s s])

lemma edit_consume: "peer_edit s (fst (handle_consume e w d s))"
  unfolding handle_consume_def Let_def
  by (auto split: option.splits prod.splits intro!: set_peer_edit simp: peer_edit_def[of s s])

lemma edit_pauseProducer: "peer_edit s (fst (handle_pauseProducer e w d s))"
  unfolding handle_pauseProducer_def Let_def
  by (auto split: option.splits prod.splits intro!: set_peer_edit0 simp: peer_edit_def[of s s])

lemma edit_resumeProducer: "peer_edit s (fst (handle_resumeProducer e w d s))"
  unfolding handle_resumeProducer_def Let_def
  by (auto split: option.splits prod.splits intro!: set_peer_edit0 simp: peer_edit_def[of s s])

lemma createRoom_cases:
  assumes "createRoom e r s = (x, s0, es)"
  shows "(\<exists>room. x = Inr (Room room) \<and> map_of (rooms s) r = Some room \<and> s0 = s \<and> es = [])
    \<or> (x = Inr Inherited \<and> map_of (rooms s) r = None \<and> inherited r \<and> s0 = s \<and> es = [])
    \<or> (\<exists>m. x = Inl m \<and> map_of (rooms s) r = None
          \<and> (s0 = s \<or> s0 = s\<lparr>mw_next := Suc (mw_next s)\<rparr>))
    \<or> (x = Inr (Room (new_room r s)) \<and> map_of (rooms s) r = None \<and> \<not> inherited r
          \<and> mw_rejects e CreateRouter = None
          \<and> mw_rejects e (CreateAudioLevelObserver (mw_next s)) = None
          \<and> s0 = add_room r s
          \<and> es = [Call CreateRouter, Call (CreateAudioLevelObserver (mw_next s))])"
  using assms
  by (auto simp: createRoom_def Let_def new_room_def add_room_def
      split: option.splits if_splits)

lemma createRoom_again:
  "map_of (rooms s) r = Some room \<Longrightarrow> createRoom e r s = (Inr (Room room), s, [])"
  by (simp add: createRoom_def)

lemma add_room_lookup: "map_of (rooms (add_room r s)) r = Some (new_room r s)"
  by (simp add: add_room_def AList.update_conv')

lemma createPeer_existing:
  "map_of (rooms s) r = Some room \<Longrightarrow>
   createPeer e r p dn w s =
     (Inr ((fresh_peer p dn w)\<lparr>connectionState := New\<rparr>,
           room\<lparr>peers := AList.update p ((fresh_peer p dn w)\<lparr>connectionState := New\<rparr>)
                            (peers room)\<rparr>),
      s\<lparr>rooms := AList.update r
           (room\<lparr>peers := AList.update p ((fresh_peer p dn w)\<lparr>connectionState := New\<rparr>)
                            (peers room)\<rparr>) (rooms s),
        peerSocketMap := AList.update w p (peerSocketMap s),
        peerRoomMap := AList.update p r (peerRoomMap s)\<rparr>, [])"
  by (simp add: createPeer_def createRoom_again fresh_peer_def Let_def)

lemma join_existing:
  assumes "map_of (rooms s) r = Some room" and "d_roomId d = r" and "d_peerId d = p"
  shows "fst (handle_joinRoom e w d s) = add_peer r p (join_name d) w room s"
  using assms
  by (simp add: handle_joinRoom_def Let_def createRoom_again createPeer_existing set_peer_def
      AList.update_conv' add_peer_def fresh_peer_def join_name_def)

lemma joinRoom_shape:
  assumes "d_roomId d = r" and "d_peerId d = p"
  shows "fst (handle_joinRoom e w d s) = s
    \<or> fst (handle_joinRoom e w d s) = s\<lparr>mw_next := Suc (mw_next s)\<rparr>
    \<or> (\<exists>room. map_of (rooms s) r = Some room
          \<and> fst (handle_joinRoom e w d s) = add_peer r p (join_name d) w room s)
    \<or> (map_of (rooms s) r = None \<and> \<not> inherited r
          \<and> fst (handle_joinRoom e w d s)
              = add_peer r p (join_name d) w (new_room r s) (add_room r s))"
proof (cases "createRoom e r s")
  case (fields x s0 es)
  from createRoom_cases[OF fields] show ?thesis
  proof (elim disjE exE conjE)
    fix room assume "x = Inr (Room room)" "map_of (rooms s) r = Some room"
    then show ?thesis using join_existing[OF _ assms] by blast
  next
    assume a: "x = Inr Inherited" "map_of (rooms s) r = None" "inherited r" "s0 = s" "es = []"
    then have "fst (handle_joinRoom e w d s) = s"
      using fields assms by (simp add: handle_joinRoom_def Let_def createPeer_def)
    then show ?thesis by blast
  next
    fix m assume a: "x = Inl m" "s0 = s"
    then have "fst (handle_joinRoom e w d s) = s"
      using fields assms by (simp add: handle_joinRoom_def Let_def)
    then show ?thesis using a by blast
  next
    fix m assume a: "x = Inl m" "s0 = s\<lparr>mw_next := Suc (mw_next s)\<rparr>"
    then have "fst (handle_joinRoom e w d s) = s\<lparr>mw_next := Suc (mw_next s)\<rparr>"
      using fields assms by (simp add: handle_joinRoom_def Let_def)
    then show ?thesis using a by blast
  next
    assume a: "x = Inr (Room (new_room r s))" "map_of (rooms s) r = None" "\<not> inherited r"
      "s0 = add_room r s"
    have "fst (handle_joinRoom e w d s)
              = add_peer r p (join_name d) w (new_room r s) (add_room r s)"
      using fields assms a
      by (simp add: handle_joinRoom_def Let_def createPeer_existing[OF add_room_lookup]
          set_peer_def AList.update_conv' add_peer_def join_name_def fresh_peer_def)
    then show ?thesis using a by blast
  qed
qed

lemma createRoom_shape:
  "fst (handle_createRoom e w d s) = s
   \<or> fst (handle_createRoom e w d s) = s\<lparr>mw_next := Suc (mw_next s)\<rparr>
   \<or> (map_of (rooms s) (d_roomId d) = None \<and> \<not> inherited (d_roomId d)
        \<and> fst (handle_createRoom e w d s) = add_room (d_roomId d) s)"
proof (cases "createRoom e (d_roomId d) s")
  case (fields x s0 es)
  from createRoom_cases[OF fields] show ?thesis
    using fields by (auto simp: handle_createRoom_def)
qed

lemma cleanupPeer_shape:
  "fst (cleanupPeer e p s) = s
   \<or> (\<exists>r room peer. map_of (peerRoomMap s) p = Some r \<and> r \<noteq> []
        \<and> map_of (rooms s) r = Some room \<and> map_of (peers room) p = Some peer
        \<and> fst (cleanupPeer e p s) = remove_peer p r room peer s)"
  by (auto simp: cleanupPeer_def Let_def remove_peer_def split: option.splits)

lemma on_close_shape:
  "fst (on_close e w s) = s
   \<or> (\<exists>p r room peer. map_of (peerSocketMap s) w = Some p \<and> p \<noteq> []
        \<and> map_of (peerRoomMap s) p = Some r \<and> r \<noteq> []
        \<and> map_of (rooms s) r = Some room \<and> map_of (peers room) p = Some peer
        \<and> fst (on_close e w s) = remove_peer p r room peer s)"
proof (cases "map_of (peerSocketMap s) w")
  case None
  then show ?thesis by (simp add: on_close_def)
next
  case (Some p)
  show ?thesis
  proof (cases "p = []")
    case True
    then show ?thesis using Some by (simp add: on_close_def)
  next
    case False
    then have "on_close e w s = cleanupPeer e p s" using Some by (simp add: on_close_def)
    then show ?thesis using cleanupPeer_shape[of e p s] Some False by auto
  qed
qed

lemma step_cases:
  "fst (step s ev) = s
   \<or> fst (step s ev) = s\<lparr>mw_next := Suc (mw_next s)\<rparr>
   \<or> peer_edit s (fst (step s ev))
   \<or> (\<exists>r. is_createRoom ev \<and> map_of (rooms s) r = None \<and> \<not> inherited r
         \<and> fst (step s ev) = add_room r s)
   \<or> (\<exists>w d e room. ev = Message w (Json d) e \<and> d_type d = ''joinRoom''
         \<and> map_of (rooms s) (d_roomId d) = Some room
         \<and> fst (step s ev) = add_peer (d_roomId d) (d_peerId d) (join_name d) w room s)
   \<or> (\<exists>w d e. ev = Message w (Json d) e \<and> d_type d = ''joinRoom''
         \<and> map_of (rooms s) (d_roomId d) = None \<and> \<not> inherited (d_roomId d)
         \<and> fst (step s ev) = add_peer (d_roomId d) (d_peerId d) (join_name d) w
               (new_room (d_roomId d) s) (add_room (d_roomId d) s))
   \<or> (\<exists>w e p r room peer. ev = Close w e \<and> map_of (peerSocketMap s) w = Some p \<and> p \<noteq> []
         \<and> map_of (peerRoomMap s) p = Some r \<and> r \<noteq> []
         \<and> map_of (rooms s) r = Some room \<and> map_of (peers room) p = Some peer
         \<and> fst (step s ev) = remove_peer p r room peer s)"
proof (cases ev)
  case (Close w e)
  then show ?thesis using on_close_shape[of e w s] by auto
next
  case (Message w m e)
  show ?thesis
  proof (cases m)
    case NotJson
    then show ?thesis using Message by (simp add: on_message_def)
  next
    case (Json d)
    have st: "step s ev = dispatch e w d s" using Message Json by (simp add: on_message_def)
    consider (cr) "d_type d = ''createRoom''" | (jr) "d_type d = ''joinRoom''"
      | (ct) "d_type d = ''createWebRtcTransport''" | (cn) "d_type d = ''connectWebRtcTransport''"
      | (pr) "d_type d = ''produce''" | (co) "d_type d = ''consume''"
      | (pa) "d_type d = ''pauseProducer''" | (re) "d_type d = ''resumeProducer''"
      | (other) "d_type d \<notin> {''createRoom'', ''joinRoom'', ''createWebRtcTransport'',
          ''connectWebRtcTransport'', ''produce'', ''consume'', ''pauseProducer'',
          ''resumeProducer''}"
      by blast
    then show ?thesis
    proof cases
      case cr
      then have "step s ev = handle_createRoom e w d s" using st by (simp add: dispatch_def)
      moreover have "is_createRoom ev" using Message Json cr by (simp add: is_createRoom_def)
      ultimately show ?thesis using createRoom_shape[of e w d s] by auto
    next
      case jr
      then have h: "step s ev = handle_joinRoom e w d s" using st by (simp add: dispatch_def)
      from joinRoom_shape[OF refl refl, of e w d s] show ?thesis
        unfolding h using Message Json jr by blast
    next
      case ct
      then have "step s ev = handle_createWebRtcTransport e w d s"
        using st by (simp add: dispatch_def)
      then show ?thesis using edit_createWebRtcTransport[of s e w d] by simp
    next
      case cn
      then have "step s ev = handle_connectWebRtcTransport e w d s"
        using st by (simp add: dispatch_def)
      then show ?thesis using edit_connectWebRtcTransport[of s e w d] by simp
    next
      case pr
      then have "step s ev = handle_produce e w d s" using st by (simp add: dispatch_def)
      then show ?thesis using edit_produce[of s e w d] by simp
    next
      case co
      then have "step s ev = handle_consume e w d s" using st by (simp add: dispatch_def)
      then show ?thesis using edit_consume[of s e w d] by simp
    next
      case pa
      then have "step s ev = handle_pauseProducer e w d s" using st by (simp add: dispatch_def)
      then show ?thesis using edit_pauseProducer[of s e w d] by simp
    next
      case re
      then have "step s ev = handle_resumeProducer e w d s"
        using st by (simp add: dispatch_def)
      then show ?thesis using edit_resumeProducer[of s e w d] by simp
    next
      case other
      then have "step s ev = (s, [Send w (Pong (d_reqId d))])"
        using st by (simp add: dispatch_def)
      then show ?thesis by simp
    qed
  qed
qed

lemma run_Cons: "run s (ev # evs) = run (fst (step s ev)) evs"
  by (simp add: run_def)

lemma run_Nil: "run s [] = s"
  by (simp add: run_def)

lemma set_update_subset: "set (AList.update k v al) \<subseteq> insert (k, v) (set al)"
  by (induction al) auto

lemma set_delete_subset: "set (AList.delete k al) \<subseteq> set al"
  by (auto simp: AList.delete_eq)

lemma in_update: "(a, b) \<in> set (AList.update k v al) \<Longrightarrow> (a = k \<and> b = v) \<or> (a, b) \<in> set al"
  using set_update_subset[of k v al] by auto

lemma in_delete: "(a, b) \<in> set (AList.delete k al) \<Longrightarrow> (a, b) \<in> set al"
  using set_delete_subset[of k al] by auto

lemma solo_state:
  "run init trace_solo = \<lparr>rooms = [(''R'', solo_room)], peerSocketMap = [(1, ''p1'')],
      peerRoomMap = [(''p1'', ''R'')], mw_next = 5\<rparr>"
  by code_simp

lemma remove_peer_lookup:
  assumes "map_of (rooms (remove_peer p r room peer s)) r' = Some room'"
  shows "(r' \<noteq> r \<and> map_of (rooms s) r' = Some room')
       \<or> (r' = r \<and> room' = room\<lparr>peers := AList.delete p (peers room)\<rparr>)"
  using assms
  by (auto simp: remove_peer_def AList.update_conv' AList.delete_conv' split: if_splits)

subsection \<open>Invariants of every trace\<close>

text \<open>
  Along every trace a room's router id is below the worker's counter and no room is
  registered under an inherited property name (\<open>registered\<close>); a peerId that
  \<open>peerRoomMap\<close> binds to a room is a key of that room's peers, and every record is
  stored under its own id (\<open>linked\<close>). So the lookups \<open>rooms[roomId]\<close> and
  \<open>room.peers[peerId]\<close> of \<open>getPeerFromSocket\<close>, \<open>getRoom\<close> and \<open>cleanupPeer\<close>, whose
  keys come from the registries, find own properties, as the model has it.
\<close>

lemma registeredI:
  "(\<And>r room. (r, room) \<in> set (rooms s) \<Longrightarrow> router room < mw_next s \<and> \<not> inherited r)
     \<Longrightarrow> registered s"
  by (auto simp: registered_def)

lemma registeredD:
  "registered s \<Longrightarrow> (r, room) \<in> set (rooms s) \<Longrightarrow> router room < mw_next s \<and> \<not> inherited r"
  by (auto simp: registered_def)

lemma registered_update:
  assumes "registered s" and "map_of (rooms s) r = Some room" and "router room' = router room"
    and "mw_next s \<le> n"
    and "rooms s' = AList.update r room' (rooms s)" and "mw_next s' = n"
  shows "registered s'"
proof (rule registeredI)
  fix r' x assume "(r', x) \<in> set (rooms s')"
  then have "(r', x) \<in> set (AList.update r room' (rooms s))" using assms(5) by simp
  from in_update[OF this] show "router x < mw_next s' \<and> \<not> inherited r'"
    using registeredD[OF assms(1)] map_of_SomeD[OF assms(2)] assms(3,4,6)
    by (metis less_le_trans)
qed

lemma registered_edit:
  assumes "registered s" and "peer_edit s s'"
  shows "registered s'"
proof (cases "s' = s")
  case True
  then show ?thesis using assms by simp
next
  case False
  then obtain rk pk room peer' n where
    r: "map_of (rooms s) rk = Some room" and n: "mw_next s \<le> n" and
    s': "s' = s\<lparr>mw_next := n, rooms := AList.update rk
              (room\<lparr>peers := AList.update pk peer' (peers room)\<rparr>) (rooms s)\<rparr>"
    using assms(2) unfolding peer_edit_def by blast
  show ?thesis
    by (rule registered_update[OF assms(1) r _ n]) (simp_all add: s')
qed

lemma registered_bump: "registered s \<Longrightarrow> registered (s\<lparr>mw_next := Suc (mw_next s)\<rparr>)"
  unfolding registered_def by fastforce

lemma registered_add_room:
  assumes "registered s" and "\<not> inherited r"
  shows "registered (add_room r s)"
proof (rule registeredI)
  fix r' x assume "(r', x) \<in> set (rooms (add_room r s))"
  then have "(r', x) \<in> set (AList.update r (new_room r s) (rooms s))"
    by (simp add: add_room_def)
  from in_update[OF this]
  show "router x < mw_next (add_room r s) \<and> \<not> inherited r'"
    using registeredD[OF assms(1)] assms(2)
    by (auto simp: add_room_def new_room_def less_Suc_eq)
qed

lemma registered_add_peer:
  assumes "registered s" and "map_of (rooms s) r = Some room"
  shows "registered (add_peer r p dn w room s)"
  by (rule registered_update[OF assms _ order_refl]) (simp_all add: add_peer_def)

lemma registered_remove_peer:
  assumes "registered s" and "map_of (rooms s) r = Some room"
  shows "registered (remove_peer p r room peer s)"
proof (cases "AList.delete p (peers room) = []")
  case True
  show ?thesis
  proof (rule registeredI)
    fix r' x assume "(r', x) \<in> set (rooms (remove_peer p r room peer s))"
    then have "(r', x) \<in> set (AList.delete r (rooms s))"
      using True by (simp add: remove_peer_def)
    from in_delete[OF this]
    show "router x < mw_next (remove_peer p r room peer s) \<and> \<not> inherited r'"
      using registeredD[OF assms(1)] by (simp add: remove_peer_def)
  qed
next
  case False
  show ?thesis
    by (rule registered_update[OF assms _ order_refl]) (simp_all add: remove_peer_def False)
qed

lemma registered_step:
  assumes "registered s"
  shows "registered (fst (step s ev))"
  using step_cases[of s ev]
proof (elim disjE exE conjE)
  assume "fst (step s ev) = s" then show ?thesis using assms by simp
next
  assume "fst (step s ev) = s\<lparr>mw_next := Suc (mw_next s)\<rparr>"
  then show ?thesis using registered_bump[OF assms(1)] by simp
next
  assume "peer_edit s (fst (step s ev))"
  then show ?thesis using registered_edit[OF assms(1)] by simp
next
  fix r assume "\<not> inherited r" "fst (step s ev) = add_room r s"
  then show ?thesis using registered_add_room[OF assms(1)] by simp
next
  fix w d e room
  assume "map_of (rooms s) (d_roomId d) = Some room"
    "fst (step s ev) = add_peer (d_roomId d) (d_peerId d) (join_name d) w room s"
  then show ?thesis using registered_add_peer[OF assms(1)] by simp
next
  fix w d e
  assume "\<not> inherited (d_roomId d)" "fst (step s ev) = add_peer (d_roomId d) (d_peerId d) (join_name d) w
               (new_room (d_roomId d) s) (add_room (d_roomId d) s)"
  then show ?thesis
    using registered_add_peer[OF registered_add_room[OF assms(1)] add_room_lookup] by simp
next
  fix w e p r room peer
  assume "map_of (rooms s) r = Some room" "fst (step s ev) = remove_peer p r room peer s"
  then show ?thesis using registered_remove_peer[OF assms(1)] by simp
qed

lemma registered_run: "registered s \<Longrightarrow> registered (run s evs)"
  by (induction evs arbitrary: s) (simp_all add: run_Nil run_Cons registered_step)

lemma registered_init: "registered init"
  by (simp add: registered_def init_def)

lemma linked_init: "linked init"
  by (simp add: linked_def init_def)

lemma linked_bump: "linked s \<Longrightarrow> linked (s\<lparr>mw_next := n\<rparr>)"
  by (simp add: linked_def)

lemma linked_room:
  "linked s \<Longrightarrow> map_of (peerRoomMap s) p = Some r \<Longrightarrow>
     \<exists>room peer. map_of (rooms s) r = Some room \<and> map_of (peers room) p = Some peer"
  unfolding linked_def by blast

lemma linked_key:
  "linked s \<Longrightarrow> map_of (rooms s) r = Some room \<Longrightarrow> map_of (peers room) k = Some P \<Longrightarrow>
     peer_id P = k"
  unfolding linked_def by blast

lemma linkedI:
  assumes "\<And>p r. map_of (peerRoomMap s) p = Some r \<Longrightarrow>
             \<exists>room peer. map_of (rooms s) r = Some room \<and> map_of (peers room) p = Some peer"
    and "\<And>r room k P. map_of (rooms s) r = Some room \<Longrightarrow> map_of (peers room) k = Some P \<Longrightarrow>
             peer_id P = k"
  shows "linked s"
  unfolding linked_def using assms by blast

lemma linked_add_room:
  assumes l: "linked s" and n: "map_of (rooms s) r = None"
  shows "linked (add_room r s)"
proof (rule linkedI)
  fix p r' assume "map_of (peerRoomMap (add_room r s)) p = Some r'"
  then have "map_of (peerRoomMap s) p = Some r'" by (simp add: add_room_def)
  from linked_room[OF l this] obtain room peer where
    f: "map_of (rooms s) r' = Some room" "map_of (peers room) p = Some peer" by blast
  then have "r' \<noteq> r" using n by auto
  then show "\<exists>room peer. map_of (rooms (add_room r s)) r' = Some room
                \<and> map_of (peers room) p = Some peer"
    using f by (simp add: add_room_def AList.update_conv')
next
  fix r' room k P
  assume "map_of (rooms (add_room r s)) r' = Some room" "map_of (peers room) k = Some P"
  then have "map_of (rooms s) r' = Some room"
    by (auto simp: add_room_def new_room_def AList.update_conv' split: if_splits)
  then show "peer_id P = k" using linked_key[OF l] \<open>map_of (peers room) k = Some P\<close> by blast
qed

lemma linked_store:
  assumes l: "linked s" and r: "map_of (rooms s) r = Some room" and id: "peer_id P' = k"
    and rooms': "rooms s' = AList.update r
                   (room\<lparr>peers := AList.update k P' (peers room)\<rparr>) (rooms s)"
    and prm: "\<And>q r'. map_of (peerRoomMap s') q = Some r' \<Longrightarrow>
                (q = k \<and> r' = r) \<or> map_of (peerRoomMap s) q = Some r'"
  shows "linked s'"
proof (rule linkedI)
  fix q r' assume a: "map_of (peerRoomMap s') q = Some r'"
  from prm[OF a]
  show "\<exists>room peer. map_of (rooms s') r' = Some room \<and> map_of (peers room) q = Some peer"
  proof
    assume "q = k \<and> r' = r"
    then show ?thesis by (simp add: rooms' AList.update_conv')
  next
    assume "map_of (peerRoomMap s) q = Some r'"
    from linked_room[OF l this] obtain room' peer' where
      f: "map_of (rooms s) r' = Some room'" "map_of (peers room') q = Some peer'" by blast
    show ?thesis
    proof (cases "r' = r")
      case True
      then show ?thesis using f r by (simp add: rooms' AList.update_conv')
    next
      case False
      then show ?thesis using f by (simp add: rooms' AList.update_conv')
    qed
  qed
next
  fix r' room' k' P
  assume a: "map_of (rooms s') r' = Some room'" and b: "map_of (peers room') k' = Some P"
  show "peer_id P = k'"
  proof (cases "r' = r")
    case False
    then have "map_of (rooms s) r' = Some room'"
      using a by (simp add: rooms' AList.update_conv')
    then show ?thesis using linked_key[OF l] b by blast
  next
    case True
    then have "room' = room\<lparr>peers := AList.update k P' (peers room)\<rparr>"
      using a by (simp add: rooms' AList.update_conv')
    then have "(k' = k \<and> P = P') \<or> map_of (peers room) k' = Some P"
      using b by (auto simp: AList.update_conv' split: if_splits)
    then show ?thesis using linked_key[OF l r] id by auto
  qed
qed

lemma linked_edit:
  assumes "linked s" and "peer_edit s s'"
  shows "linked s'"
proof (cases "s' = s")
  case True
  then show ?thesis using assms by simp
next
  case False
  then obtain rk pk room peer peer' n where
    r: "map_of (rooms s) rk = Some room" and p: "map_of (peers room) pk = Some peer"
    and same: "peer_id peer' = peer_id peer"
    and s': "s' = s\<lparr>mw_next := n, rooms := AList.update rk
              (room\<lparr>peers := AList.update pk peer' (peers room)\<rparr>) (rooms s)\<rparr>"
    using assms(2) unfolding peer_edit_def by blast
  have id: "peer_id peer' = pk" using linked_key[OF assms(1) r p] same by simp
  show ?thesis
    by (rule linked_store[OF assms(1) r id]) (simp_all add: s')
qed

lemma linked_add_peer:
  assumes l: "linked s" and r: "map_of (rooms s) r = Some room"
  shows "linked (add_peer r p dn w room s)"
proof (rule linked_store[OF l r])
  show "peer_id (fresh_peer p dn w) = p" by (simp add: fresh_peer_def)
  show "rooms (add_peer r p dn w room s) = AList.update r
          (room\<lparr>peers := AList.update p (fresh_peer p dn w) (peers room)\<rparr>) (rooms s)"
    by (simp add: add_peer_def)
  show "(q = p \<and> r' = r) \<or> map_of (peerRoomMap s) q = Some r'"
    if "map_of (peerRoomMap (add_peer r p dn w room s)) q = Some r'" for q r'
    using that by (auto simp: add_peer_def AList.update_conv' split: if_splits)
qed

lemma linked_remove_peer:
  assumes l: "linked s"
    and r: "map_of (rooms s) r = Some room" and p: "map_of (peers room) p = Some peer"
  shows "linked (remove_peer p r room peer s)"
  unfolding linked_def
proof (intro conjI allI impI)
  let ?s' = "remove_peer p r room peer s"
  fix q r' assume a: "map_of (peerRoomMap ?s') q = Some r'"
  then have qp: "q \<noteq> p" and old: "map_of (peerRoomMap s) q = Some r'"
    by (auto simp: remove_peer_def AList.delete_conv' split: if_splits)
  from l old obtain room' peer' where
    f: "map_of (rooms s) r' = Some room'" "map_of (peers room') q = Some peer'"
    unfolding linked_def by blast
  show "\<exists>room peer. map_of (rooms ?s') r' = Some room \<and> map_of (peers room) q = Some peer"
  proof (cases "r' = r")
    case False
    then show ?thesis using f
      by (auto simp: remove_peer_def AList.update_conv' AList.delete_conv')
  next
    case True
    then have "map_of (AList.delete p (peers room)) q = Some peer'"
      using f r qp by (simp add: AList.delete_conv')
    moreover from this have "AList.delete p (peers room) \<noteq> []" by auto
    ultimately show ?thesis using True
      by (auto simp: remove_peer_def AList.update_conv')
  qed
next
  fix r' room' k P
  assume a: "map_of (rooms (remove_peer p r room peer s)) r' = Some room'"
    and b: "map_of (peers room') k = Some P"
  have "\<exists>room0. map_of (rooms s) r' = Some room0 \<and> map_of (peers room0) k = Some P"
    using remove_peer_lookup[OF a] b r
    by (auto simp: AList.delete_conv' split: if_splits)
  then show "peer_id P = k" using l unfolding linked_def by blast
qed

lemma linked_step:
  assumes "linked s"
  shows "linked (fst (step s ev))"
  using step_cases[of s ev]
proof (elim disjE exE conjE)
  assume "fst (step s ev) = s" then show ?thesis using assms by simp
next
  assume "fst (step s ev) = s\<lparr>mw_next := Suc (mw_next s)\<rparr>"
  then show ?thesis using linked_bump[OF assms(1)] by simp
next
  assume "peer_edit s (fst (step s ev))"
  then show ?thesis using linked_edit[OF assms(1)] by simp
next
  fix r assume "map_of (rooms s) r = None" "fst (step s ev) = add_room r s"
  then show ?thesis using linked_add_room[OF assms(1)] by simp
next
  fix w d e room
  assume "map_of (rooms s) (d_roomId d) = Some room"
    "fst (step s ev) = add_peer (d_roomId d) (d_peerId d) (join_name d) w room s"
  then show ?thesis using linked_add_peer[OF assms(1)] by simp
next
  fix w d e
  assume "map_of (rooms s) (d_roomId d) = None"
    "fst (step s ev) = add_peer (d_roomId d) (d_peerId d) (join_name d) w
               (new_room (d_roomId d) s) (add_room (d_roomId d) s)"
  then show ?thesis
    using linked_add_peer[OF linked_add_room[OF assms(1)] add_room_lookup] by simp
next
  fix w e p r room peer
  assume "map_of (rooms s) r = Some room" "map_of (peers room) p = Some peer"
    "fst (step s ev) = remove_peer p r room peer s"
  then show ?thesis using linked_remove_peer[OF assms(1)] by simp
qed

lemma linked_run: "linked (run init evs)"
proof -
  have "linked s \<Longrightarrow> linked (run s evs)" for s
    by (induction evs arbitrary: s) (simp_all add: run_Nil run_Cons linked_step)
  then show ?thesis using linked_init by blast
qed

lemma registry_lookups_own:
  assumes "list_all modelled evs" and "s = run init evs"
    and "map_of (peerRoomMap s) p = Some r"
  shows "\<exists>room peer. map_of (rooms s) r = Some room \<and> \<not> inherited r
           \<and> map_of (peers room) p = Some peer \<and> peer_id peer = p"
proof -
  have l: "linked s" using assms(2) linked_run by simp
  from l assms(3) obtain room peer where
    f: "map_of (rooms s) r = Some room" "map_of (peers room) p = Some peer"
    unfolding linked_def by blast
  have "peer_id peer = p" using l f unfolding linked_def by blast
  moreover have "\<not> inherited r"
    using registeredD[OF registered_run[OF registered_init] map_of_SomeD, of evs r room] f(1)
      assms(2) by simp
  ultimately show ?thesis using f by blast
qed

subsection \<open>Transport slots\<close>





subsection \<open>joinRoom with a peerId already in the room\<close>

lemma join_existing_effects:
  assumes "map_of (rooms s) (d_roomId d) = Some room"
  shows "\<exists>ps prods. snd (handle_joinRoom e w d s) =
           map (\<lambda>otherPeer. Send (peer_ws otherPeer) (PeerJoined (d_peerId d) (join_name d)))
             (others e (room\<lparr>peers := AList.update (d_peerId d)
                ((fresh_peer (d_peerId d) (join_name d) w)\<lparr>connectionState := Connecting\<rparr>)
                (peers room)\<rparr>) (d_peerId d))
           @ [Send w (JoinRoomResponse (d_reqId d) (router room) ps prods)]"
  using assms
  by (simp add: handle_joinRoom_def Let_def createRoom_again createPeer_existing
      join_name_def fresh_peer_def)

text \<open>
  C4, as the code has it. A \<open>joinRoom\<close> whose peerId is already a key of the room's peers
  is answered with a \<open>joinRoomResponse\<close> and no error frame; the record stored under the
  peerId is replaced by a new one for the requesting socket (no transports, producers or
  consumers), \<open>peerSocketMap\<close> binds the requesting socket to the peerId and \<open>peerRoomMap\<close>
  binds the peerId to the room.
\<close>

theorem duplicate_join_replaces:
  assumes "d_type d = ''joinRoom''" and "d_peerId d \<noteq> ''__proto__''"
    and "map_of (rooms s) (d_roomId d) = Some room"
    and "map_of (peers room) (d_peerId d) = Some old"
  shows "(\<exists>ps prods. last (snd (step s (Message w (Json d) e)))
              = Send w (JoinRoomResponse (d_reqId d) (router room) ps prods))
    \<and> \<not> list_ex (sends isErrorFrame) (snd (step s (Message w (Json d) e)))
    \<and> map_of (rooms (fst (step s (Message w (Json d) e)))) (d_roomId d)
        = Some (room\<lparr>peers := AList.update (d_peerId d)
                   (fresh_peer (d_peerId d) (join_name d) w) (peers room)\<rparr>)
    \<and> map_of (peerSocketMap (fst (step s (Message w (Json d) e)))) w = Some (d_peerId d)
    \<and> map_of (peerRoomMap (fst (step s (Message w (Json d) e)))) (d_peerId d)
        = Some (d_roomId d)"
proof -
  have st: "step s (Message w (Json d) e) = handle_joinRoom e w d s"
    using assms(1) by (simp add: on_message_def dispatch_def)
  from join_existing_effects[OF assms(3), of e w] obtain ps prods where
    ef: "snd (handle_joinRoom e w d s) =
           map (\<lambda>otherPeer. Send (peer_ws otherPeer) (PeerJoined (d_peerId d) (join_name d)))
             (others e (room\<lparr>peers := AList.update (d_peerId d)
                ((fresh_peer (d_peerId d) (join_name d) w)\<lparr>connectionState := Connecting\<rparr>)
                (peers room)\<rparr>) (d_peerId d))
           @ [Send w (JoinRoomResponse (d_reqId d) (router room) ps prods)]" by blast
  have a: "\<exists>ps prods. last (snd (handle_joinRoom e w d s))
              = Send w (JoinRoomResponse (d_reqId d) (router room) ps prods)"
    unfolding ef by simp
  have b: "\<not> list_ex (sends isErrorFrame) (snd (handle_joinRoom e w d s))"
    unfolding ef by (auto simp: list_ex_iff sends_def isErrorFrame_def)
  have c: "fst (handle_joinRoom e w d s)
             = add_peer (d_roomId d) (d_peerId d) (join_name d) w room s"
    by (rule join_existing[OF assms(3) refl refl])
  show ?thesis
    unfolding st using a b by (simp add: c add_peer_def AList.update_conv')
qed

theorem duplicate_join_replaces_witness:
  "d_type (joinReq ''R'' ''p1'') = ''joinRoom'' \<and> d_peerId (joinReq ''R'' ''p1'') \<noteq> ''__proto__''
   \<and> map_of (rooms (run init trace_solo)) (d_roomId (joinReq ''R'' ''p1'')) = Some solo_room
   \<and> map_of (peers solo_room) (d_peerId (joinReq ''R'' ''p1'')) = Some solo_peer
   \<and> (\<exists>ps prods. last (snd (step (run init trace_solo)
                                 (Message 2 (Json (joinReq ''R'' ''p1'')) accepting)))
           = Send 2 (JoinRoomResponse (Some ''1'') 0 ps prods))
   \<and> map_of (rooms (fst (step (run init trace_solo)
                           (Message 2 (Json (joinReq ''R'' ''p1'')) accepting)))) ''R''
       = Some (solo_room\<lparr>peers := [(''p1'', fresh_peer ''p1'' ''A'' 2)]\<rparr>)
   \<and> map_of (peerSocketMap (fst (step (run init trace_solo)
                           (Message 2 (Json (joinReq ''R'' ''p1'')) accepting)))) 2
       = Some ''p1''"
proof -
  have h1: "d_type (joinReq ''R'' ''p1'') = ''joinRoom''"
    and h2: "d_peerId (joinReq ''R'' ''p1'') \<noteq> ''__proto__''"
    by (simp_all add: joinReq_def request_def)
  have h3: "map_of (rooms (run init trace_solo)) (d_roomId (joinReq ''R'' ''p1''))
              = Some solo_room"
    by (simp add: solo_state joinReq_def request_def)
  have h4: "map_of (peers solo_room) (d_peerId (joinReq ''R'' ''p1'')) = Some solo_peer"
    by (simp add: solo_room_def joinReq_def request_def)
  show ?thesis
    using h1 h2 h3 h4 duplicate_join_replaces [OF h1 h2 h3 h4, of 2 accepting]
    by (simp add: joinReq_def request_def solo_room_def join_name_def)
qed

text \<open>
  C4 as stated fails: p1 is in R on socket 1; a \<open>joinRoom\<close> for p1 in R on socket 2 gets a
  \<open>joinRoomResponse\<close>, the record of p1 now belongs to socket 2 and \<open>peerSocketMap\<close> has a
  second entry.
\<close>

theorem duplicate_join_counterexample:
  "step (run init [msg 1 (joinReq ''R'' ''p1'')]) (msg 2 (joinReq ''R'' ''p1''))
     = (\<lparr>rooms = [(''R'', \<lparr>room_id = ''R'', router = 0, audioLevelObserver = 1,
                          peers = [(''p1'', fresh_peer ''p1'' ''A'' 2)]\<rparr>)],
         peerSocketMap = [(1, ''p1''), (2, ''p1'')], peerRoomMap = [(''p1'', ''R'')],
         mw_next = 2\<rparr>,
        [Send 2 (JoinRoomResponse (Some ''1'') 0 [] [])])
   \<and> run init [msg 1 (joinReq ''R'' ''p1'')]
     = \<lparr>rooms = [(''R'', \<lparr>room_id = ''R'', router = 0, audioLevelObserver = 1,
                         peers = [(''p1'', fresh_peer ''p1'' ''A'' 1)]\<rparr>)],
        peerSocketMap = [(1, ''p1'')], peerRoomMap = [(''p1'', ''R'')], mw_next = 2\<rparr>"
  by code_simp

subsection \<open>consume\<close>

lemma find_producer_aux:
  "foldl (\<lambda>found p. case map_of (producers p) pid of None \<Rightarrow> found
                     | Some producer \<Rightarrow> Some (p, producer)) acc xs = Some (t, pr)
   \<Longrightarrow> acc = Some (t, pr) \<or> (t \<in> set xs \<and> map_of (producers t) pid = Some pr)"
  by (induction xs arbitrary: acc) (auto split: option.splits)

lemma find_producer_found:
  "find_producer room pid = Some (t, pr) \<Longrightarrow>
     t \<in> set (object_values (peers room)) \<and> map_of (producers t) pid = Some pr"
  unfolding find_producer_def using find_producer_aux by fastforce

text \<open>
  C3, as the code has it. When a \<open>consume\<close> request is answered with a
  \<open>consumeResponse\<close>, the caller's record holds, under the producer's id, a consumer whose
  upstream peerId is the id of a peer of the caller's room that holds the requested
  producer. The search runs over all peers of the room, the caller included.
\<close>

theorem consume_upstream_in_room:
  assumes "d_type d = ''consume''"
    and "Send w (ConsumeResponse rid cid pid k up dn src)
           \<in> set (snd (step s (Message w (Json d) e)))"
  shows "\<exists>rk pk peer room target myProducer peer'.
      getPeerFromSocket s w = Some (rk, pk, peer)
    \<and> getRoom s (map_of (peerRoomMap s) (peer_id peer)) = Some room
    \<and> target \<in> set (object_values (peers room))
    \<and> map_of (producers target) (d_producerId d) = Some myProducer
    \<and> up = peer_id target
    \<and> getPeerFromSocket (fst (step s (Message w (Json d) e))) w = Some (rk, pk, peer')
    \<and> map_of (consumers peer') (prod_id myProducer)
        = Some \<lparr>cons_id = cid, cons_peerId = peer_id target,
                cons_producerId = prod_id myProducer\<rparr>"
proof -
  have st: "step s (Message w (Json d) e) = handle_consume e w d s"
    using assms(1) by (simp add: on_message_def dispatch_def)
  from assms(2) obtain rk pk peer transport room target myProducer where
    g: "getPeerFromSocket s w = Some (rk, pk, peer)" "recvTransport peer = Some transport"
       "getRoom s (map_of (peerRoomMap s) (peer_id peer)) = Some room"
       "find_producer room (d_producerId d) = Some (target, myProducer)"
       "mw_rejects e (TransportConsume transport (prod_id myProducer) (d_rtpCapabilities d))
          = None"
    unfolding st handle_consume_def Let_def
    by (auto split: option.splits prod.splits)
  let ?peer' = "peer\<lparr>consumers := AList.update (prod_id myProducer)
       \<lparr>cons_id = mw_next s, cons_peerId = peer_id target,
        cons_producerId = prod_id myProducer\<rparr> (consumers peer)\<rparr>"
  have res: "handle_consume e w d s =
      (set_peer rk pk ?peer' (s\<lparr>mw_next := Suc (mw_next s)\<rparr>),
       [Call (TransportConsume transport (prod_id myProducer) (d_rtpCapabilities d)),
        Send w (ConsumeResponse (d_reqId d) (mw_next s) (prod_id myProducer) (kind myProducer)
                  (peer_id target) (displayName target) (source myProducer))])"
    using g by (simp add: handle_consume_def Let_def)
  have eqs: "cid = mw_next s" "up = peer_id target"
    using assms(2) unfolding st res by simp_all
  note fp = find_producer_found[OF g(4)]
  have gp: "getPeerFromSocket (fst (handle_consume e w d s)) w = Some (rk, pk, ?peer')"
    unfolding res using getPeer_set_peer[OF g(1)] by simp
  have "map_of (consumers ?peer') (prod_id myProducer)
        = Some \<lparr>cons_id = cid, cons_peerId = peer_id target,
                cons_producerId = prod_id myProducer\<rparr>"
    by (simp add: AList.update_conv' eqs)
  then show ?thesis
    unfolding st using g(1,3) fp eqs(2) gp by blast
qed

text \<open>
  The witness is a self-consume: p1 asks for its own producer 4 and the upstream peer of
  the response and of the stored consumer is p1.
\<close>

theorem consume_upstream_in_room_witness:
  "d_type ((request ''consume'')\<lparr>d_producerId := 4\<rparr>) = ''consume''
   \<and> Send 1 (ConsumeResponse (Some ''1'') 5 4 ''audio'' ''p1'' ''A'' ''mic'')
       \<in> set (snd (step (run init trace_solo)
                     (Message 1 (Json ((request ''consume'')\<lparr>d_producerId := 4\<rparr>)) accepting)))
   \<and> (\<exists>rk pk peer room target myProducer peer'.
         getPeerFromSocket (run init trace_solo) 1 = Some (rk, pk, peer)
       \<and> getRoom (run init trace_solo)
           (map_of (peerRoomMap (run init trace_solo)) (peer_id peer)) = Some room
       \<and> target \<in> set (object_values (peers room))
       \<and> map_of (producers target) (d_producerId ((request ''consume'')\<lparr>d_producerId := 4\<rparr>))
           = Some myProducer
       \<and> ''p1'' = peer_id target
       \<and> getPeerFromSocket
           (fst (step (run init trace_solo)
                   (Message 1 (Json ((request ''consume'')\<lparr>d_producerId := 4\<rparr>)) accepting))) 1
           = Some (rk, pk, peer')
       \<and> map_of (consumers peer') (prod_id myProducer)
           = Some \<lparr>cons_id = 5, cons_peerId = peer_id target,
                   cons_producerId = prod_id myProducer\<rparr>)"
proof -
  have h1: "d_type ((request ''consume'')\<lparr>d_producerId := 4\<rparr>) = ''consume''"
    by (simp add: request_def)
  have h2: "Send 1 (ConsumeResponse (Some ''1'') 5 4 ''audio'' ''p1'' ''A'' ''mic'')
       \<in> set (snd (step (run init trace_solo)
                     (Message 1 (Json ((request ''consume'')\<lparr>d_producerId := 4\<rparr>)) accepting)))"
    by code_simp
  show ?thesis
    using h1 h2 consume_upstream_in_room [OF h1 h2] by blast
qed

text \<open>
  C3 as stated fails: after that request the only consumer of p1 has upstream peerId p1.
\<close>

theorem consume_upstream_counterexample:
  "getPeerFromSocket
     (fst (step (run init trace_solo) (msg 1 ((request ''consume'')\<lparr>d_producerId := 4\<rparr>)))) 1
   = Some (''R'', ''p1'',
           solo_peer\<lparr>consumers := [(4, \<lparr>cons_id = 5, cons_peerId = ''p1'',
                                         cons_producerId = 4\<rparr>)]\<rparr>)
   \<and> snd (step (run init trace_solo) (msg 1 ((request ''consume'')\<lparr>d_producerId := 4\<rparr>)))
   = [Call (TransportConsume 2 4 []),
      Send 1 (ConsumeResponse (Some ''1'') 5 4 ''audio'' ''p1'' ''A'' ''mic'')]"
  by code_simp

subsection \<open>Rooms without peers\<close>














subsection \<open>Teardown of an empty room\<close>








subsection \<open>Mapping coherence\<close>


















end
